theory Spec2Isabelle
  imports Complex_Main
begin

section \<open>Python values, exceptions and numpy floats\<close>

text \<open>
  The exceptions that the modelled methods of \<^verbatim>\<open>utils/main.py\<close> raise themselves or
  let escape from the standard library, numpy and pandas. \<open>MethodError\<close> is the
  package's own exception class (\<^verbatim>\<open>from .exceptions import MethodError\<close>).
\<close>

datatype error =
    FileNotFoundError | NotADirectoryError | KeyError | ValueError | TypeError
  | AttributeError | IndexError | UnboundLocalError | MethodError

text \<open>
  The dynamically typed values that reach the configuration parameters: \<^verbatim>\<open>None\<close>,
  booleans, numbers, strings, lists and dictionaries with string keys.
\<close>

datatype pyval =
    PNone | PBool bool | PNum real | PStr string | PList "pyval list"
  | PDict "(string \<times> pyval) list"

text \<open>Python truthiness, as \<^verbatim>\<open>if x:\<close> and \<^verbatim>\<open>not x\<close> read a value.\<close>

fun truthy :: "pyval \<Rightarrow> bool" where
  "truthy PNone = False"
| "truthy (PBool b) = b"
| "truthy (PNum x) = (x \<noteq> 0)"
| "truthy (PStr s) = (s \<noteq> [])"
| "truthy (PList xs) = (xs \<noteq> [])"
| "truthy (PDict kvs) = (kvs \<noteq> [])"

text \<open>
  A numpy float without rounding: a real number, the two infinities, or NaN (which is
  also how pandas marks a missing entry). Comparisons with NaN are false; arithmetic on
  NaN gives NaN; a non-zero number divided by zero is an infinity.
\<close>

datatype fval = NaN | NInf | Fin real | PInf

fun flt :: "fval \<Rightarrow> fval \<Rightarrow> bool" where
  "flt NaN _ = False"
| "flt _ NaN = False"
| "flt PInf _ = False"
| "flt _ NInf = False"
| "flt NInf _ = True"
| "flt (Fin a) PInf = True"
| "flt (Fin a) (Fin b) = (a < b)"

definition fgt :: "fval \<Rightarrow> fval \<Rightarrow> bool" where
  "fgt a b = flt b a"







section \<open>Analysis.set\_param: updating the parameters of a pipeline\<close>

text \<open>
  The part of the \<^verbatim>\<open>Analysis\<close> object that \<^verbatim>\<open>set_param\<close> reads and writes: the
  instance dictionary \<^verbatim>\<open>self.__dict__\<close> and the three parameter collections of
  \<^verbatim>\<open>self._tmp_dict\<close> (keys \<^verbatim>\<open>group\<close>, \<^verbatim>\<open>corr\<close>, \<^verbatim>\<open>reg\<close>).
\<close>

record analysis =
  attrs :: "string \<rightharpoonup> pyval"
  tmp_dict :: "string \<rightharpoonup> (string \<rightharpoonup> pyval)"

definition lower_char :: "char \<Rightarrow> char" where
  "lower_char c =
     (let n = (of_char c :: nat) in if 65 \<le> n \<and> n \<le> 90 then char_of (n + 32) else c)"

definition lower :: "string \<Rightarrow> string" where
  "lower s = map lower_char s"

text \<open>
  \<^verbatim>\<open>__set_default_params(params)\<close>: \<^verbatim>\<open>setattr(self, '_' + param, None)\<close> for each
  element of \<^verbatim>\<open>params\<close>.
\<close>

fun set_default_params :: "string list \<Rightarrow> analysis \<Rightarrow> analysis" where
  "set_default_params [] obj = obj"
| "set_default_params (p # ps) obj =
     set_default_params ps (obj\<lparr>attrs := (attrs obj)(CHR ''_'' # p \<mapsto> PNone)\<rparr>)"

text \<open>
  \<^verbatim>\<open>{0: 1e-5, 1: 1-1e-5}.get(v, v)\<close>. A dictionary key is found by hash and equality,
  so the floats \<open>0.0\<close>, \<open>1.0\<close> and the booleans find the integer keys too; a list
  or a dictionary is unhashable and the lookup raises \<^verbatim>\<open>TypeError\<close>.
\<close>

fun num_of_key :: "pyval \<Rightarrow> real option" where
  "num_of_key (PNum x) = Some x"
| "num_of_key (PBool b) = Some (if b then 1 else 0)"
| "num_of_key _ = None"

fun thresh_lookup :: "pyval \<Rightarrow> error + pyval" where
  "thresh_lookup (PList xs) = Inl TypeError"
| "thresh_lookup (PDict kvs) = Inl TypeError"
| "thresh_lookup v =
     Inr (if num_of_key v = Some 0 then PNum (1 / 100000)
          else if num_of_key v = Some 1 then PNum (1 - 1 / 100000)
          else v)"

text \<open>
  The loop \<^verbatim>\<open>for k, v in kwargs.items()\<close> of the \<^verbatim>\<open>group\<close> branch: the threshold is
  remapped, then the value is stored both as the attribute \<^verbatim>\<open>'_' + k\<close> and in the
  parameter collection.
\<close>

fun store_group :: "string \<Rightarrow> (string \<times> pyval) list \<Rightarrow> analysis \<Rightarrow> error + analysis" where
  "store_group fn [] obj = Inr obj"
| "store_group fn ((k, v) # kw) obj =
     (case (if k = ''thresh'' then thresh_lookup v else Inr v) of
        Inl e \<Rightarrow> Inl e
      | Inr v' \<Rightarrow>
          (case tmp_dict obj fn of
             None \<Rightarrow> Inl KeyError
           | Some coll \<Rightarrow>
               store_group fn kw
                 (obj\<lparr>attrs := (attrs obj)(CHR ''_'' # k \<mapsto> v'),
                      tmp_dict := (tmp_dict obj)(fn \<mapsto> coll(k \<mapsto> v'))\<rparr>)))"

text \<open>The same loop of the \<^verbatim>\<open>corr\<close> branch (attribute \<^verbatim>\<open>'_corr_' + k\<close>, no remapping).\<close>

fun store_corr :: "string \<Rightarrow> (string \<times> pyval) list \<Rightarrow> analysis \<Rightarrow> error + analysis" where
  "store_corr fn [] obj = Inr obj"
| "store_corr fn ((k, v) # kw) obj =
     (case tmp_dict obj fn of
        None \<Rightarrow> Inl KeyError
      | Some coll \<Rightarrow>
          store_corr fn kw
            (obj\<lparr>attrs := (attrs obj)(''_corr_'' @ k \<mapsto> v),
                 tmp_dict := (tmp_dict obj)(fn \<mapsto> coll(k \<mapsto> v))\<rparr>))"

text \<open>The \<^verbatim>\<open>reg\<close> branch stores the attribute \<^verbatim>\<open>'_reg_' + k\<close> only.\<close>

fun store_reg :: "(string \<times> pyval) list \<Rightarrow> analysis \<Rightarrow> analysis" where
  "store_reg [] obj = obj"
| "store_reg ((k, v) # kw) obj = store_reg kw (obj\<lparr>attrs := (attrs obj)(''_reg_'' @ k \<mapsto> v)\<rparr>)"

text \<open>
  \<^verbatim>\<open>set_param(function_name, **kwargs)\<close>, up to the point where it hands over to the
  pipeline of the chosen component (\<^verbatim>\<open>_group_check_params\<close>, \<^verbatim>\<open>_corr_check_params\<close>,
  \<^verbatim>\<open>_reg_check_params\<close> or \<^verbatim>\<open>__reg_table\<close>). The result is the object as that
  pipeline receives it; the pipelines assign neither \<^verbatim>\<open>_thresh\<close> nor
  \<^verbatim>\<open>_tmp_dict\<close>. The keyword arguments are a list of pairs in call order (their
  names are distinct in Python).

  \<^item> The guard \<^verbatim>\<open>'group_name' != self._group_name\<close> compares the literal string with
    the attribute.
  \<^item> \<^verbatim>\<open>params.extend('group_name')\<close> extends the list by the ten one-character
    strings of the literal.
\<close>

definition set_param :: "analysis \<Rightarrow> string \<Rightarrow> (string \<times> pyval) list \<Rightarrow> error + analysis" where
  "set_param obj function_name kwargs =
     (if tmp_dict obj (lower function_name) = None then Inl ValueError
      else case tmp_dict obj function_name of
        None \<Rightarrow> Inl KeyError
      | Some coll \<Rightarrow>
          if list_ex (\<lambda>k. coll k = None) (map fst kwargs) then Inl ValueError
          else if function_name = ''group'' then
            (let params =
                   (if ''group_name'' \<in> set (map fst kwargs)
                       \<and> attrs obj ''_group_name'' \<noteq> Some (PStr ''group_name'')
                    then [''dividend'', ''part_element'', ''palette''] else [])
                   @ (if ''file_type'' \<in> set (map fst kwargs)
                         \<and> attrs obj ''_file_type'' \<noteq> Some (PStr ''file_type'')
                      then map (\<lambda>c. [c]) ''group_name'' else [])
             in store_group function_name kwargs (set_default_params params obj))
          else if function_name = ''corr'' then
            store_corr function_name kwargs (obj\<lparr>attrs := (attrs obj)(''_corr_value'' \<mapsto> PDict [])\<rparr>)
          else if function_name = ''reg'' then
            (if length kwargs = 1 \<and> fst (hd kwargs) = ''output''
             then Inr (obj\<lparr>attrs := (attrs obj)(''_reg_output'' \<mapsto> snd (hd kwargs))\<rparr>)
             else Inr (store_reg kwargs (obj\<lparr>attrs := (attrs obj)(''reg_model'' \<mapsto> PDict [])\<rparr>)))
          else Inr obj)"

section \<open>Preprocessing: scaling and variance-inflation pruning\<close>

text \<open>
  A numeric pandas DataFrame: the row labels and the columns in order, each with its
  label and its values (one per row). Labels may repeat.
\<close>

record frame =
  index :: "string list"
  columns :: "(string \<times> fval list) list"

definition labels :: "frame \<Rightarrow> string list" where
  "labels df = map fst (columns df)"

subsection \<open>Preprocessing.scale\<close>

text \<open>The values of the dictionary \<^verbatim>\<open>scaler_methods\<close>: four sklearn classes, two numpy functions.\<close>

datatype scaler_method = StandardScaler | MinMaxScaler | Normalizer | RobustScaler | Log2 | Log10

definition scaler_methods :: "string \<rightharpoonup> scaler_method" where
  "scaler_methods =
     [''standard'' \<mapsto> StandardScaler, ''zscore'' \<mapsto> StandardScaler, ''minmax'' \<mapsto> MinMaxScaler,
      ''normalizer'' \<mapsto> Normalizer, ''robust'' \<mapsto> RobustScaler, ''log2'' \<mapsto> Log2,
      ''log10'' \<mapsto> Log10]"

text \<open>
  The first argument of \<^verbatim>\<open>scale\<close>: the name of a loaded table, a pandas Series
  (index, name, values) or a DataFrame.
\<close>

datatype element = EName string | ESeries "string list" string "fval list" | EFrame frame

text \<open>
  \<^verbatim>\<open>scaler_methods[scaler]\<close>: a string that is not a key, and any other hashable
  value, raises \<^verbatim>\<open>KeyError\<close>; a list or a dictionary is unhashable.
\<close>

fun lookup_method :: "pyval \<Rightarrow> error + scaler_method" where
  "lookup_method (PStr s) = (case scaler_methods s of None \<Rightarrow> Inl KeyError | Some m \<Rightarrow> Inr m)"
| "lookup_method (PList xs) = Inl TypeError"
| "lookup_method (PDict kvs) = Inl TypeError"
| "lookup_method _ = Inl KeyError"

text \<open>
  The last four lines of \<^verbatim>\<open>scale\<close>. The numeric work is the libraries':
  \<open>np_log\<close> stands for \<^verbatim>\<open>np.log2\<close> and \<^verbatim>\<open>np.log10\<close> on one entry, \<open>fit_transform\<close>
  for \<^verbatim>\<open>scaler().fit_transform\<close> on the values of the table (given and returned
  column by column); the result of the latter gets the labels of the input back.
\<close>

definition apply_scaler ::
  "(scaler_method \<Rightarrow> fval \<Rightarrow> fval) \<Rightarrow> (scaler_method \<Rightarrow> fval list list \<Rightarrow> fval list list) \<Rightarrow>
   scaler_method \<Rightarrow> frame \<Rightarrow> frame" where
  "apply_scaler np_log fit_transform m df =
     (if m = Log2 \<or> m = Log10
      then df\<lparr>columns := map (\<lambda>(l, vs). (l, map (np_log m) vs)) (columns df)\<rparr>
      else df\<lparr>columns := zip (map fst (columns df)) (fit_transform m (map snd (columns df)))\<rparr>)"

text \<open>
  \<^verbatim>\<open>scale(element, scaler)\<close>, with the registry \<^verbatim>\<open>self._data\<close> as \<open>data\<close>. The
  guard \<^verbatim>\<open>if not scaler: return element\<close> comes first and returns the argument
  itself, whatever it is.
\<close>

definition scale ::
  "(scaler_method \<Rightarrow> fval \<Rightarrow> fval) \<Rightarrow> (scaler_method \<Rightarrow> fval list list \<Rightarrow> fval list list) \<Rightarrow>
   (string \<rightharpoonup> frame) \<Rightarrow> element \<Rightarrow> pyval \<Rightarrow> error + element" where
  "scale np_log fit_transform data element scaler =
     (if \<not> truthy scaler then Inr element
      else case (case element of
                   EName n \<Rightarrow> (case data n of None \<Rightarrow> Inl KeyError | Some df \<Rightarrow> Inr df)
                 | ESeries idx l vs \<Rightarrow> Inr \<lparr>index = idx, columns = [(l, vs)]\<rparr>
                 | EFrame df \<Rightarrow> Inr df) of
             Inl e \<Rightarrow> Inl e
           | Inr df \<Rightarrow>
               (case lookup_method scaler of
                  Inl e \<Rightarrow> Inl e
                | Inr m \<Rightarrow> Inr (EFrame (apply_scaler np_log fit_transform m df))))"

subsection \<open>Preprocessing.calculate\_vif\<close>

text \<open>
  \<^verbatim>\<open>np.max\<close> raises \<^verbatim>\<open>ValueError\<close> on an empty array and returns NaN when an
  entry is NaN. \<^verbatim>\<open>np.argmax\<close> gives the first position of the maximum of the
  flattened argument; in \<^verbatim>\<open>calculate_vif\<close> it is only applied to a scalar, read
  here as the one-element array.
\<close>

definition fmax :: "fval \<Rightarrow> fval \<Rightarrow> fval" where
  "fmax a b = (if a = NaN \<or> b = NaN then NaN else if flt a b then b else a)"

fun np_max :: "fval list \<Rightarrow> error + fval" where
  "np_max [] = Inl ValueError"
| "np_max (x # xs) = Inr (fold fmax xs x)"

definition np_argmax :: "fval list \<Rightarrow> nat" where
  "np_argmax xs = (case np_max xs of Inl e \<Rightarrow> 0 | Inr m \<Rightarrow> length (takeWhile (\<lambda>x. x \<noteq> m) xs))"

text \<open>
  \<^verbatim>\<open>df.assign(add_const=1)\<close>: a new last column of ones, or, when the table already
  has columns of that label, those columns overwritten where they stand.
\<close>

definition assign_add_const :: "frame \<Rightarrow> frame" where
  "assign_add_const df =
     (let ones = replicate (length (index df)) (Fin 1) in
      if ''add_const'' \<in> set (labels df)
      then df\<lparr>columns := map (\<lambda>(l, vs). if l = ''add_const'' then (l, ones) else (l, vs)) (columns df)\<rparr>
      else df\<lparr>columns := columns df @ [(''add_const'', ones)]\<rparr>)"

text \<open>\<^verbatim>\<open>df.drop(label, axis=1)\<close> removes every column of that label and raises when there is none.\<close>

definition drop_label :: "string \<Rightarrow> frame \<Rightarrow> error + frame" where
  "drop_label l df =
     (if l \<in> set (labels df) then Inr (df\<lparr>columns := filter (\<lambda>c. fst c \<noteq> l) (columns df)\<rparr>)
      else Inl KeyError)"

text \<open>
  The scores of one round: \<^verbatim>\<open>variance_inflation_factor(df, i)\<close> of statsmodels (the
  parameter \<open>vif\<close>) for every column position, without the last one (\<^verbatim>\<open>[:-1]\<close>).
\<close>

definition vif_scores :: "(frame \<Rightarrow> nat \<Rightarrow> fval) \<Rightarrow> frame \<Rightarrow> fval list" where
  "vif_scores vif df = butlast (map (vif df) [0..<length (columns df)])"

lemma drop_label_shorter:
  "drop_label l df = Inr df' \<Longrightarrow> length (columns df') < length (columns df)"
proof -
  assume a: "drop_label l df = Inr df'"
  then have "l \<in> set (labels df)" and d: "columns df' = filter (\<lambda>c. fst c \<noteq> l) (columns df)"
    by (auto simp: drop_label_def split: if_splits)
  then obtain c where "c \<in> set (columns df)" "fst c = l" by (auto simp: labels_def)
  then have "length (filter (\<lambda>c. fst c \<noteq> l) (columns df)) < length (columns df)"
    by (intro length_filter_less) auto
  with d show ?thesis by simp
qed

text \<open>
  The \<^verbatim>\<open>while drop:\<close> loop. \<^verbatim>\<open>max_loc = np.argmax(max_vif)\<close> takes the position of
  the maximum of the scalar \<^verbatim>\<open>max_vif\<close>, not of the array \<^verbatim>\<open>vif\<close>. Every round
  that continues removes a column, so the loop ends.
\<close>

function vif_loop :: "(frame \<Rightarrow> nat \<Rightarrow> fval) \<Rightarrow> real \<Rightarrow> frame \<Rightarrow> error + frame" where
  "vif_loop vif thresh df =
     (let variables = labels df in
      case np_max (vif_scores vif df) of
        Inl e \<Rightarrow> Inl e
      | Inr max_vif \<Rightarrow>
          if fgt max_vif (Fin thresh) then
            (let max_loc = np_argmax [max_vif] in
             case drop_label (variables ! max_loc) df of
               Inl e \<Rightarrow> Inl e
             | Inr df' \<Rightarrow> vif_loop vif thresh df')
          else Inr df)"
  by pat_completeness auto
termination
  by (relation "measure (\<lambda>(vif, thresh, df). length (columns df))")
     (auto dest: drop_label_shorter)

declare vif_loop.simps [simp del]

definition calculate_vif :: "(frame \<Rightarrow> nat \<Rightarrow> fval) \<Rightarrow> real \<Rightarrow> frame \<Rightarrow> error + frame" where
  "calculate_vif vif thresh df =
     (case vif_loop vif thresh (assign_add_const df) of
        Inl e \<Rightarrow> Inl e
      | Inr df' \<Rightarrow> drop_label ''add_const'' df')"

text \<open>
  The shape of the table inside the loop when the input has no column labelled
  \<^verbatim>\<open>add_const\<close>: the constant column is the last one and the only one of that label.
\<close>

definition const_last :: "frame \<Rightarrow> bool" where
  "const_last d =
     (\<exists>cs. columns d = cs @ [(''add_const'', replicate (length (index d)) (Fin 1))]
          \<and> ''add_const'' \<notin> set (map fst cs))"

section \<open>Dataset: loading the tables of a project directory\<close>

text \<open>
  The file system as the constructor sees it: a path leads to a regular file (with its
  content), to a directory (with its entries, in the order \<^verbatim>\<open>os.listdir\<close> gives
  them), or to nothing.
\<close>

datatype node = RegularFile string | Directory "string list"

type_synonym filesystem = "string \<rightharpoonup> node"

text \<open>\<^verbatim>\<open>os.path.join(a, b)\<close> for a relative \<open>b\<close>.\<close>

definition path_join :: "string \<Rightarrow> string \<Rightarrow> string" where
  "path_join a b = (if a = [] \<or> last a = CHR ''/'' then a @ b else a @ ''/'' @ b)"

definition isdir :: "filesystem \<Rightarrow> string \<Rightarrow> bool" where
  "isdir fs p = (case fs p of Some (Directory es) \<Rightarrow> True | _ \<Rightarrow> False)"

definition listdir :: "filesystem \<Rightarrow> string \<Rightarrow> error + string list" where
  "listdir fs p =
     (case fs p of
        None \<Rightarrow> Inl FileNotFoundError
      | Some (RegularFile c) \<Rightarrow> Inl NotADirectoryError
      | Some (Directory es) \<Rightarrow> Inr es)"

definition endswith :: "string \<Rightarrow> string \<Rightarrow> bool" where
  "endswith s suf = (length suf \<le> length s \<and> drop (length s - length suf) s = suf)"

text \<open>
  The state of a \<^verbatim>\<open>Dataset\<close>: the registry \<^verbatim>\<open>_data\<close> of loaded tables by name, the
  list \<^verbatim>\<open>_valid_dfs_names\<close>, the colour map (\<open>None\<close> for the empty dictionary it
  starts as) and the flag \<^verbatim>\<open>_initialized\<close>. The tables \<open>'df\<close> and the colour map
  \<open>'cm\<close> are pandas' and the helper's own. (\<^verbatim>\<open>__object_name\<close>, read by \<^verbatim>\<open>__str__\<close>
  only, is left out.)
\<close>

record ('df, 'cm) dataset =
  dirpath :: string
  data :: "string \<rightharpoonup> 'df"
  valid_dfs_names :: "string list"
  color_map :: "'cm option"
  initialized :: bool

text \<open>
  \<^verbatim>\<open>glob.glob(os.path.join(dirpath, 'document', omic_name + '.*'))\<close>: the entries of
  the document directory that start with the name and a dot, as full paths, in
  directory order (for a name free of the wildcard characters of glob); no match when
  the directory is missing. \<^verbatim>\<open>_get_df_path\<close> takes the first and turns the
  \<^verbatim>\<open>IndexError\<close> of an empty result into \<^verbatim>\<open>ValueError\<close>.
\<close>

definition glob_name :: "filesystem \<Rightarrow> string \<Rightarrow> string \<Rightarrow> string list" where
  "glob_name fs docdir name =
     (case fs docdir of
        Some (Directory es) \<Rightarrow>
          map (path_join docdir) (filter (\<lambda>e. take (length name + 1) e = name @ ''.'') es)
      | _ \<Rightarrow> [])"

definition get_df_path :: "filesystem \<Rightarrow> string \<Rightarrow> string \<Rightarrow> error + string" where
  "get_df_path fs dir omic_name =
     (case glob_name fs (path_join dir ''document'') omic_name of
        [] \<Rightarrow> Inl ValueError
      | p # ps \<Rightarrow> Inr p)"

text \<open>
  The pandas readers and the argument \<^verbatim>\<open>index_col\<close> they get. \<open>pd_read\<close> stands for
  the reader at work on a path of the file system: it returns the table or the
  exception it raises; for the two binary formats it includes the following
  \<^verbatim>\<open>set_index\<close>.
\<close>

datatype reader = ReadCsv | ReadTable | ReadPickle | ReadFeather

datatype index_col = NoIndex | IndexCols "nat list"

definition index_col_of :: "string \<Rightarrow> string \<Rightarrow> index_col" where
  "index_col_of omic_path omic_name =
     (if endswith omic_path ''.maf'' then NoIndex
      else if omic_name = ''phospho'' then IndexCols [0]
      else if omic_name = ''color'' then IndexCols [0, 1]
      else IndexCols [0])"

definition get_dataframe ::
  "(reader \<Rightarrow> index_col \<Rightarrow> filesystem \<Rightarrow> string \<Rightarrow> error + 'df) \<Rightarrow> filesystem \<Rightarrow>
   ('df, 'cm) dataset \<Rightarrow> string \<Rightarrow> error + ('df, 'cm) dataset" where
  "get_dataframe pd_read fs ds omic_name =
     (case get_df_path fs (dirpath ds) omic_name of
        Inl e \<Rightarrow> Inl e
      | Inr omic_path \<Rightarrow>
          (let ic = index_col_of omic_path omic_name in
           case (if endswith omic_path ''.csv'' then pd_read ReadCsv ic fs omic_path
                 else if endswith omic_path ''.txt'' \<or> endswith omic_path ''tsv''
                         \<or> endswith omic_path ''maf''
                 then pd_read ReadTable ic fs omic_path
                 else if endswith omic_path ''.pickle'' then pd_read ReadPickle ic fs omic_path
                 else if endswith omic_path ''.feather'' then pd_read ReadFeather ic fs omic_path
                 else Inl ValueError) of
             Inl e \<Rightarrow> Inl e
           | Inr df \<Rightarrow>
               Inr (ds\<lparr>data := (data ds)(omic_name \<mapsto> df),
                       valid_dfs_names :=
                         (if omic_name \<in> set (valid_dfs_names ds) then valid_dfs_names ds
                          else valid_dfs_names ds @ [omic_name])\<rparr>)))"

text \<open>
  \<^verbatim>\<open>_load_dataset(names)\<close>: every name is tried, and whatever
  \<^verbatim>\<open>_get_dataframe\<close> raises is dropped (\<^verbatim>\<open>except: continue\<close>). Then, when
  \<^verbatim>\<open>'color'\<close> is among the names, the colour map is built from the tables
  \<^verbatim>\<open>color\<close> and \<^verbatim>\<open>category\<close> of the registry by the helper \<^verbatim>\<open>handle_colors\<close>.
\<close>

fun load_names ::
  "(reader \<Rightarrow> index_col \<Rightarrow> filesystem \<Rightarrow> string \<Rightarrow> error + 'df) \<Rightarrow> filesystem \<Rightarrow>
   string list \<Rightarrow> ('df, 'cm) dataset \<Rightarrow> ('df, 'cm) dataset" where
  "load_names pd_read fs [] ds = ds"
| "load_names pd_read fs (n # ns) ds =
     load_names pd_read fs ns
       (case get_dataframe pd_read fs ds n of Inl e \<Rightarrow> ds | Inr ds' \<Rightarrow> ds')"

definition load_dataset ::
  "(reader \<Rightarrow> index_col \<Rightarrow> filesystem \<Rightarrow> string \<Rightarrow> error + 'df) \<Rightarrow> ('df \<Rightarrow> 'df \<Rightarrow> 'cm) \<Rightarrow>
   filesystem \<Rightarrow> string list \<Rightarrow> ('df, 'cm) dataset \<Rightarrow> error + ('df, 'cm) dataset" where
  "load_dataset pd_read handle_colors fs names ds =
     (let ds' = load_names pd_read fs names ds in
      if ''color'' \<in> set names then
        (case data ds' ''color'' of
           None \<Rightarrow> Inl KeyError
         | Some color \<Rightarrow>
             (case data ds' ''category'' of
                None \<Rightarrow> Inl KeyError
              | Some category \<Rightarrow> Inr (ds'\<lparr>color_map := Some (handle_colors color category)\<rparr>)))
      else Inr ds')"

text \<open>
  \<^verbatim>\<open>Dataset.__init__(dirpath)\<close>. When \<^verbatim>\<open>document\<close> is not a directory the
  constructor builds a \<^verbatim>\<open>FileNotFoundError\<close> and does not raise it (\<open>built\<close>
  below, never used); it goes on to \<^verbatim>\<open>os.listdir\<close> of that path, which raises by
  itself. A file name is cut at its first dot (\<^verbatim>\<open>f.split('.', -1)[0]\<close>).
\<close>

definition dataset_init ::
  "(reader \<Rightarrow> index_col \<Rightarrow> filesystem \<Rightarrow> string \<Rightarrow> error + 'df) \<Rightarrow> ('df \<Rightarrow> 'df \<Rightarrow> 'cm) \<Rightarrow>
   filesystem \<Rightarrow> string \<Rightarrow> error + ('df, 'cm) dataset" where
  "dataset_init pd_read handle_colors fs dir =
     (let built = (if \<not> isdir fs (path_join dir ''document'') then [FileNotFoundError] else []) in
      case listdir fs (path_join dir ''document'') of
        Inl e \<Rightarrow> Inl e
      | Inr files \<Rightarrow>
          (let omic_names = map (takeWhile (\<lambda>c. c \<noteq> CHR ''.'')) files in
           case load_dataset pd_read handle_colors fs omic_names
                  \<lparr>dirpath = dir, data = Map.empty, valid_dfs_names = [], color_map = None,
                   initialized = False\<rparr> of
             Inl e \<Rightarrow> Inl e
           | Inr ds \<Rightarrow> Inr (ds\<lparr>initialized := True\<rparr>)))"

section \<open>Group: the comparison of groups of samples\<close>







text \<open>
  \<^verbatim>\<open>pd.DataFrame(np.vstack(rows).transpose(), index=..., columns=...)\<close>: the stacked
  arrays become the columns of the table. The arrays must have the length of the index
  and be as many as there are column labels.
\<close>

definition stacked_frame :: "string list \<Rightarrow> string list \<Rightarrow> fval list list \<Rightarrow> error + frame" where
  "stacked_frame idx col_labels rows =
     (if length rows = length col_labels \<and> list_all (\<lambda>r. length r = length idx) rows
      then Inr \<lparr>index = idx, columns = zip col_labels rows\<rparr>
      else Inl ValueError)"















section \<open>Correlation: the end of the pipeline\<close>

text \<open>A numpy array of one or two dimensions, and the same of truth values.\<close>

datatype ndarray = Vec "fval list" | Mat "fval list list"

datatype barray = BVec "bool list" | BMat "bool list list"

definition rows_of :: "ndarray \<Rightarrow> fval list list" where
  "rows_of a = (case a of Vec v \<Rightarrow> [v] | Mat rs \<Rightarrow> rs)"

text \<open>\<^verbatim>\<open>array > t\<close>, entry by entry.\<close>

definition np_gt :: "ndarray \<Rightarrow> real \<Rightarrow> barray" where
  "np_gt a t =
     (case a of
        Vec v \<Rightarrow> BVec (map (\<lambda>x. fgt x (Fin t)) v)
      | Mat rs \<Rightarrow> BMat (map (map (\<lambda>x. fgt x (Fin t))) rs))"

text \<open>\<^verbatim>\<open>matrix[matrix != matrix] = 0\<close>: every NaN becomes zero, in place.\<close>

definition nan_to_zero :: "fval list list \<Rightarrow> fval list list" where
  "nan_to_zero m = map (map (\<lambda>v. if v = NaN then Fin 0 else v)) m"

text \<open>
  The routines of the package's \<^verbatim>\<open>statistic\<close> module that the correlation engine
  calls, and one numpy expression: \<open>frequency count m\<close> stands for
  \<^verbatim>\<open>count / np.count_nonzero(~np.isnan(m), axis=1)\<close>. \<open>fdr\<close> gives the adjusted
  p-values (the component \<^verbatim>\<open>[1]\<close> of the helper's result).
\<close>

record corr_lib =
  core_corr :: "fval list list \<Rightarrow> fval list list \<Rightarrow> string \<Rightarrow> ndarray \<times> ndarray \<times> ndarray"
  core_corr_tensor :: "fval list list \<Rightarrow> fval list list \<Rightarrow> string \<Rightarrow> ndarray \<times> ndarray"
  spearman_pvalue :: "ndarray \<Rightarrow> ndarray \<Rightarrow> ndarray"
  pearson_pvalue :: "ndarray \<Rightarrow> ndarray \<Rightarrow> ndarray"
  fdr :: "fval list \<Rightarrow> string \<Rightarrow> fval list"
  frequency :: "ndarray \<Rightarrow> fval list list \<Rightarrow> ndarray"

text \<open>
  The fields of a \<^verbatim>\<open>Correlation\<close> object that the end of \<^verbatim>\<open>__corr_pipeline\<close>
  reads and writes, from \<^verbatim>\<open>self._corr_value = {}\<close> on. The dictionary
  \<^verbatim>\<open>_corr_value\<close> keeps the order in which its keys were first set.
\<close>

record corr_obj =
  corr_dirpath :: string
  corr_name1 :: string
  corr_name2 :: string
  handle_element1 :: "string list"
  handle_element2 :: "string list"
  corr_thresh :: real
  corr_cal_type :: string
  corr_fdr_method :: string
  corr_fdr_type :: string
  corr_algorithm :: string
  write_out :: pyval
  corr_value :: "(string \<times> ndarray) list"
  corr_index :: "barray option"
  corr_table :: "frame option"

fun dict_set :: "'k \<Rightarrow> 'v \<Rightarrow> ('k \<times> 'v) list \<Rightarrow> ('k \<times> 'v) list" where
  "dict_set k v [] = [(k, v)]"
| "dict_set k v ((k', v') # kvs) =
     (if k = k' then (k, v) # kvs else (k', v') # dict_set k v kvs)"

text \<open>\<^verbatim>\<open>d[k] = d.get(k, v)\<close>.\<close>

definition dict_setdefault :: "'k \<Rightarrow> 'v \<Rightarrow> ('k \<times> 'v) list \<Rightarrow> ('k \<times> 'v) list" where
  "dict_setdefault k v d = dict_set k (case map_of d k of None \<Rightarrow> v | Some w \<Rightarrow> w) d"

definition startswith :: "string \<Rightarrow> string \<Rightarrow> bool" where
  "startswith s p = (take (length p) s = p)"

text \<open>\<^verbatim>\<open>sub in s\<close> for strings.\<close>

fun contains :: "string \<Rightarrow> string \<Rightarrow> bool" where
  "contains sub [] = (sub = [])"
| "contains sub (c # s) = (take (length sub) (c # s) = sub \<or> contains sub s)"

text \<open>
  \<^verbatim>\<open>__corr_func(algorithm, matrix1_value, matrix2_value)\<close>. The two matrices are
  passed on because the first branch changes them in place. With the FDR type
  \<^verbatim>\<open>'global'\<close> the method calls \<^verbatim>\<open>prob.faltten()\<close>, an attribute that numpy arrays
  do not have. Otherwise the FDR stored is that of the first row of the p-values
  (\<^verbatim>\<open>np.apply_along_axis(fdr, 1, prob, ...)[:, 1][0]\<close>).
\<close>

definition corr_func ::
  "corr_lib \<Rightarrow> string \<Rightarrow> corr_obj \<times> fval list list \<times> fval list list \<Rightarrow>
   error + corr_obj \<times> fval list list \<times> fval list list" where
  "corr_func lib algorithm arg =
     (case arg of (st, matrix1_value, matrix2_value) \<Rightarrow>
      let corr_name = algorithm @ (if algorithm = ''spearman'' then ''_rho'' else ''_corr'') in
      case
        (if length (handle_element1 st) > 1 \<and> length (handle_element2 st) > 1
            \<and> \<not> startswith (corr_cal_type st) ''co''
         then
           (let m1 = nan_to_zero matrix1_value; m2 = nan_to_zero matrix2_value in
            case core_corr_tensor lib m1 m2 algorithm of
              (dof, corr) \<Rightarrow> Inr (st, m1, m2, dof, corr))
         else
           (case core_corr lib matrix1_value matrix2_value algorithm of
              (count, dof, corr) \<Rightarrow>
                (let cv = dict_setdefault ''count'' count (corr_value st);
                     cv' =
                       (if startswith (corr_cal_type st) ''co''
                        then dict_setdefault (''frequence_'' @ corr_name2 st)
                               (frequency lib count matrix2_value)
                               (dict_setdefault (''frequence_'' @ corr_name1 st)
                                  (frequency lib count matrix1_value) cv)
                        else dict_setdefault ''frequence'' (frequency lib count matrix1_value) cv)
                 in case map_of cv' ''frequence'' of
                      None \<Rightarrow> Inl KeyError
                    | Some f \<Rightarrow>
                        Inr (st\<lparr>corr_value := cv', corr_index := Some (np_gt f (corr_thresh st))\<rparr>,
                             matrix1_value, matrix2_value, dof, corr)))) of
        Inl e \<Rightarrow> Inl e
      | Inr (st1, m1, m2, dof, corr) \<Rightarrow>
          (let prob = (if algorithm = ''spearman'' then spearman_pvalue lib corr dof
                       else pearson_pvalue lib corr dof);
               cv = dict_set (algorithm @ ''_pvalues'') prob
                      (dict_set corr_name corr (corr_value st1))
           in if corr_fdr_type st1 = ''global'' then Inl AttributeError
              else
                (case rows_of prob of
                   [] \<Rightarrow> Inl IndexError
                 | r # rs \<Rightarrow>
                     Inr (st1\<lparr>corr_value :=
                                dict_set (algorithm @ ''_fdr'') (Vec (fdr lib r (corr_fdr_method st1))) cv\<rparr>,
                          m1, m2))))"

text \<open>\<^verbatim>\<open>__cal_cor_value\<close>: Spearman first, then Pearson, as the algorithm name asks.\<close>

definition cal_cor_value ::
  "corr_lib \<Rightarrow> corr_obj \<times> fval list list \<times> fval list list \<Rightarrow>
   error + corr_obj \<times> fval list list \<times> fval list list" where
  "cal_cor_value lib arg =
     (let alg = lower (corr_algorithm (fst arg)) in
      case (if contains ''spearman'' alg \<or> alg = ''all'' then corr_func lib ''spearman'' arg
            else Inr arg) of
        Inl e \<Rightarrow> Inl e
      | Inr arg' \<Rightarrow>
          if contains ''pearson'' alg \<or> alg = ''all'' then corr_func lib ''pearson'' arg'
          else Inr arg')"

text \<open>
  \<^verbatim>\<open>__corr_table\<close>. \<^verbatim>\<open>np.vstack\<close> raises on an empty list; the stacked arrays
  become the columns of the table, named by the keys of \<^verbatim>\<open>_corr_value\<close>.
\<close>

definition corr_make_table :: "corr_obj \<Rightarrow> error + corr_obj" where
  "corr_make_table st =
     (if \<not> ((length (handle_element1 st) = 1 \<or> length (handle_element2 st) = 1)
             \<or> lower (corr_fdr_type st) = ''local'')
      then Inl MethodError
      else
        (let table_index =
               (if length (handle_element2 st) \<ge> length (handle_element1 st)
                then handle_element2 st else handle_element1 st)
         in if corr_value st = [] then Inl ValueError
            else case stacked_frame table_index (map fst (corr_value st))
                        (concat (map (rows_of \<circ> snd) (corr_value st))) of
                   Inl e \<Rightarrow> Inl e
                 | Inr t \<Rightarrow> Inr (st\<lparr>corr_table := Some t\<rparr>)))"

text \<open>
  What \<^verbatim>\<open>write_table\<close> does to the file system: it may create the document
  directory, and it writes one file, a labelled matrix in a format.
\<close>

record written =
  w_path :: string
  w_pickle :: bool
  w_sep :: string
  w_index :: "string list"
  w_columns :: "string list"
  w_index_name :: "string option"
  w_columns_name :: "string option"
  w_values :: "fval list list"

datatype fs_event = Mkdir string | Written written

text \<open>
  \<^verbatim>\<open>pd.DataFrame(matrix, index=index, columns=columns)\<close> for a numpy array: a
  one-dimensional array is one column; the shape has to fit the labels.
\<close>

definition labelled :: "ndarray \<Rightarrow> string list \<Rightarrow> string list \<Rightarrow> error + fval list list" where
  "labelled a idx cols =
     (case a of
        Vec v \<Rightarrow>
          if length v = length idx \<and> length cols = 1 then Inr (map (\<lambda>x. [x]) v)
          else Inl ValueError
      | Mat rs \<Rightarrow>
          if length rs = length idx \<and> list_all (\<lambda>r. length r = length cols) rs then Inr rs
          else Inl ValueError)"

text \<open>
  \<^verbatim>\<open>write_table(matrix, index, columns, index_name, columns_name, file_name,
  out_file_type)\<close>. The matrix is a table of pandas (written with its own labels) or a
  numpy array (labelled with the arguments). The result is the file system, the events,
  and the exception if one was raised.
\<close>

definition write_table ::
  "filesystem \<Rightarrow> string \<Rightarrow> frame + ndarray \<Rightarrow> string list \<Rightarrow> string list \<Rightarrow> string \<Rightarrow>
   string \<Rightarrow> string \<Rightarrow> pyval \<Rightarrow> filesystem \<times> fs_event list \<times> error option" where
  "write_table fs dir matrix idx cols index_name columns_name file_name out_file_type =
     (case (case matrix of
              Inl df \<Rightarrow>
                Inr (index df, labels df, None, None,
                     map (\<lambda>i. map (\<lambda>c. snd c ! i) (columns df)) [0..<length (index df)])
            | Inr a \<Rightarrow>
                (case labelled a idx cols of
                   Inl e \<Rightarrow> Inl e
                 | Inr vs \<Rightarrow> Inr (idx, cols, Some index_name, Some columns_name, vs))) of
        Inl e \<Rightarrow> (fs, [], Some e)
      | Inr (i, c, iname, cname, vs) \<Rightarrow>
          (let outpath = path_join dir ''document'';
               made = (if \<not> isdir fs outpath then [Mkdir outpath] else []);
               fs' = (if \<not> isdir fs outpath then fs(outpath \<mapsto> Directory []) else fs)
           in case out_file_type of
                PStr ext \<Rightarrow>
                  (let p = path_join outpath (file_name @ ''.'' @ ext) in
                   (fs', made @ [Written
                      \<lparr>w_path = p, w_pickle = endswith ext ''pickle'',
                       w_sep = (if endswith ext ''pickle'' then []
                                else if endswith ext ''csv'' then '','' else [CHR 0x09]),
                       w_index = i, w_columns = c, w_index_name = iname,
                       w_columns_name = cname, w_values = vs\<rparr>], None))
              | _ \<Rightarrow> (fs', made, Some TypeError)))"

text \<open>
  The loop \<^verbatim>\<open>for name, matrix in self._corr_value.items()\<close> at the end of the
  pipeline: every array is written with \<^verbatim>\<open>index=self._handle_element2\<close> and
  \<^verbatim>\<open>columns=self._handle_element2\<close>. An exception ends the loop; what was written
  before stays written.
\<close>

fun write_all ::
  "corr_obj \<Rightarrow> filesystem \<Rightarrow> (string \<times> ndarray) list \<Rightarrow> filesystem \<times> fs_event list \<times> error option" where
  "write_all st fs [] = (fs, [], None)"
| "write_all st fs ((name, matrix) # items) =
     (case write_table fs (corr_dirpath st) (Inr matrix) (handle_element2 st) (handle_element2 st)
             (corr_name1 st) (corr_name2 st)
             (corr_name1 st @ ''_'' @ corr_name2 st @ ''_'' @ name) (write_out st) of
        (fs', evs, Some e) \<Rightarrow> (fs', evs, Some e)
      | (fs', evs, None) \<Rightarrow>
          (case write_all st fs' items of (fs'', evs', r) \<Rightarrow> (fs'', evs @ evs', r)))"

text \<open>
  The end of \<^verbatim>\<open>__corr_pipeline\<close>: the dictionary is emptied, the correlations are
  computed, the table is built and, when \<^verbatim>\<open>_write_out\<close> is true, the arrays are
  written. The result is the file system, the events and the object or the exception.
\<close>

definition corr_pipeline_tail ::
  "corr_lib \<Rightarrow> filesystem \<Rightarrow> corr_obj \<Rightarrow> fval list list \<Rightarrow> fval list list \<Rightarrow>
   filesystem \<times> fs_event list \<times> (error + corr_obj)" where
  "corr_pipeline_tail lib fs st matrix1_value matrix2_value =
     (case cal_cor_value lib (st\<lparr>corr_value := []\<rparr>, matrix1_value, matrix2_value) of
        Inl e \<Rightarrow> (fs, [], Inl e)
      | Inr (st1, m1, m2) \<Rightarrow>
          (case corr_make_table st1 of
             Inl e \<Rightarrow> (fs, [], Inl e)
           | Inr st2 \<Rightarrow>
               if truthy (write_out st2) then
                 (case write_all st2 fs (corr_value st2) of
                    (fs', evs, Some e) \<Rightarrow> (fs', evs, Inl e)
                  | (fs', evs, None) \<Rightarrow> (fs', evs, Inr st2))
               else (fs, [], Inr st2)))"


text \<open>An event that is not the writing of a matrix with other labels than \<open>ls\<close> on either axis.\<close>

definition labelled_by :: "string list \<Rightarrow> fs_event \<Rightarrow> bool" where
  "labelled_by ls e = (case e of Mkdir p \<Rightarrow> True | Written w \<Rightarrow> w_index w = ls \<and> w_columns w = ls)"

section \<open>Regression: fitting one model per outcome\<close>

text \<open>
  The calls into statsmodels, each with \<open>None\<close> for a call that raises: \<open>reg_fit\<close>
  stands for \<^verbatim>\<open>__reg_fit(i)\<close> (the formula for the outcome \<open>i\<close>, handed to the
  regressor and fitted), \<open>anova_lm\<close> for \<^verbatim>\<open>anova_lm(model, typ=2)\<close>, \<open>model_attr\<close>
  for \<^verbatim>\<open>getattr(model, output)\<close>, \<open>eta_of\<close> for the three lines that turn an ANOVA
  table into its effect sizes, and \<open>table_like\<close> for the \<^verbatim>\<open>isinstance\<close> test of
  \<^verbatim>\<open>__reg_table\<close>.
\<close>

record ('m, 'a, 'v) reg_lib =
  reg_fit :: "string \<Rightarrow> 'm option"
  anova_lm :: "'m \<Rightarrow> 'a option"
  model_attr :: "'m \<Rightarrow> string \<Rightarrow> 'v option"
  eta_of :: "'a \<Rightarrow> 'v option"
  table_like :: "'v \<Rightarrow> bool"

text \<open>
  An entry of \<^verbatim>\<open>self.reg_model\<close>, a dictionary that may have the keys
  \<^verbatim>\<open>'model'\<close> and \<^verbatim>\<open>'anova'\<close>; \<^verbatim>\<open>reg_model\<close> itself is a
  \<^verbatim>\<open>defaultdict(dict)\<close>, so reading a missing outcome creates its empty entry.
\<close>

record ('m, 'a) reg_entry =
  entry_model :: "'m option"
  entry_anova :: "'a option"

text \<open>
  One block of the result table: the suffix of its column names, whether the single
  column \<^verbatim>\<open>'model'\<close> was asked for, and the value of every outcome.
\<close>

record 'v reg_block =
  block_suffix :: string
  block_single :: bool
  block_values :: "(string \<times> 'v) list"

text \<open>
  The fields of a \<^verbatim>\<open>Regression\<close> object that the loop over the outcomes and
  \<^verbatim>\<open>__reg_table\<close> read and write, and what they print.
\<close>

record ('m, 'a, 'v) reg_obj =
  reg_y_columns :: "string list"
  reg_anova :: bool
  reg_output :: "string list"
  reg_model :: "(string \<times> ('m, 'a) reg_entry) list"
  reg_table :: "'v reg_block list"
  printed :: "string list"

text \<open>\<^verbatim>\<open>self.reg_model[i]\<close>, read for an assignment to one of its keys.\<close>

definition entry_of :: "(string \<times> ('m, 'a) reg_entry) list \<Rightarrow> string \<Rightarrow> ('m, 'a) reg_entry" where
  "entry_of rm i =
     (case map_of rm i of None \<Rightarrow> \<lparr>entry_model = None, entry_anova = None\<rparr> | Some e \<Rightarrow> e)"

text \<open>
  The body of \<^verbatim>\<open>for i in self._reg_y_df.columns\<close>. The local variable \<^verbatim>\<open>model\<close>
  (\<open>None\<close> while unbound) keeps its value from one round to the next: when the fit of
  \<open>i\<close> raises, the ANOVA step that follows reads the model of an earlier outcome, or
  raises \<^verbatim>\<open>UnboundLocalError\<close> (caught like any other) when there is none.
\<close>

definition fit_outcome ::
  "('m, 'a, 'v) reg_lib \<Rightarrow> string \<Rightarrow> ('m, 'a, 'v) reg_obj \<times> 'm option \<Rightarrow>
   ('m, 'a, 'v) reg_obj \<times> 'm option" where
  "fit_outcome lib i arg =
     (case arg of (st, model) \<Rightarrow>
      let (st1, model1) =
            (case reg_fit lib i of
               Some m \<Rightarrow>
                 (st\<lparr>reg_model := dict_set i ((entry_of (reg_model st) i)\<lparr>entry_model := Some m\<rparr>)
                                     (reg_model st)\<rparr>, Some m)
             | None \<Rightarrow> (st\<lparr>printed := printed st @ [i]\<rparr>, model))
      in if reg_anova st1 then
           (case (case model1 of None \<Rightarrow> None | Some m \<Rightarrow> anova_lm lib m) of
              Some a \<Rightarrow>
                (st1\<lparr>reg_model := dict_set i ((entry_of (reg_model st1) i)\<lparr>entry_anova := Some a\<rparr>)
                                      (reg_model st1)\<rparr>, model1)
            | None \<Rightarrow> (st1\<lparr>printed := printed st1 @ [''Error in '' @ i @ '' variable'']\<rparr>, model1))
         else (st1, model1))"

fun fit_outcomes ::
  "('m, 'a, 'v) reg_lib \<Rightarrow> string list \<Rightarrow> ('m, 'a, 'v) reg_obj \<times> 'm option \<Rightarrow>
   ('m, 'a, 'v) reg_obj \<times> 'm option" where
  "fit_outcomes lib [] arg = arg"
| "fit_outcomes lib (i # is) arg = fit_outcomes lib is (fit_outcome lib i arg)"

text \<open>
  The inner loop of \<^verbatim>\<open>__reg_table\<close> for one output kind. For \<^verbatim>\<open>'eta'\<close> an entry
  without ANOVA table is skipped (\<^verbatim>\<open>except: pass\<close>); for any other kind
  \<^verbatim>\<open>model['model']\<close> is read unguarded.
\<close>

fun out_dict_of ::
  "('m, 'a, 'v) reg_lib \<Rightarrow> string \<Rightarrow> (string \<times> ('m, 'a) reg_entry) list \<Rightarrow>
   error + (string \<times> 'v) list" where
  "out_dict_of lib output [] = Inr []"
| "out_dict_of lib output ((name, entry) # items) =
     (case (if output = ''eta''
            then Inr (case entry_anova entry of None \<Rightarrow> None | Some a \<Rightarrow> eta_of lib a)
            else (case entry_model entry of
                    None \<Rightarrow> Inl KeyError
                  | Some m \<Rightarrow>
                      (case model_attr lib m output of
                         None \<Rightarrow> Inl AttributeError
                       | Some v \<Rightarrow> Inr (Some v)))) of
        Inl e \<Rightarrow> Inl e
      | Inr r \<Rightarrow>
          (case out_dict_of lib output items of
             Inl e \<Rightarrow> Inl e
           | Inr d \<Rightarrow> Inr (case r of None \<Rightarrow> d | Some v \<Rightarrow> dict_set name v d)))"

text \<open>
  \<^verbatim>\<open>__reg_table\<close>: one block per requested output;
  \<^verbatim>\<open>list(out_dict.values())[0]\<close> raises \<^verbatim>\<open>IndexError\<close> when no outcome has a value.
\<close>

fun reg_blocks ::
  "('m, 'a, 'v) reg_lib \<Rightarrow> string list \<Rightarrow> (string \<times> ('m, 'a) reg_entry) list \<Rightarrow>
   error + 'v reg_block list" where
  "reg_blocks lib [] rm = Inr []"
| "reg_blocks lib (output # outputs) rm =
     (case out_dict_of lib output rm of
        Inl e \<Rightarrow> Inl e
      | Inr [] \<Rightarrow> Inl IndexError
      | Inr ((name, v) # d) \<Rightarrow>
          (case reg_blocks lib outputs rm of
             Inl e \<Rightarrow> Inl e
           | Inr bs \<Rightarrow>
               Inr (\<lparr>block_suffix = (if output = ''params'' then ''coef'' else output),
                     block_single = (\<not> table_like lib v),
                     block_values = (name, v) # d\<rparr> # bs)))"

text \<open>
  The end of \<^verbatim>\<open>__reg_pipeline\<close>: the loop over the outcome columns, then
  \<^verbatim>\<open>__reg_table\<close>. The result is what was printed, and the object or the exception
  that ends the run.
\<close>

definition reg_pipeline_tail ::
  "('m, 'a, 'v) reg_lib \<Rightarrow> ('m, 'a, 'v) reg_obj \<Rightarrow> string list \<times> (error + ('m, 'a, 'v) reg_obj)" where
  "reg_pipeline_tail lib st =
     (let st1 = fst (fit_outcomes lib (reg_y_columns st) (st, None)) in
      case reg_blocks lib (reg_output st1) (reg_model st1) of
        Inl e \<Rightarrow> (printed st1, Inl e)
      | Inr bs \<Rightarrow> (printed st1, Inr (st1\<lparr>reg_table := bs\<rparr>)))"

section \<open>Concrete inputs\<close>

text \<open>A project directory whose only entry is a file \<^verbatim>\<open>notes.txt\<close>: no \<^verbatim>\<open>document\<close> folder.\<close>

definition bare_project :: filesystem where
  "bare_project = [''proj'' \<mapsto> Directory [''notes.txt''], ''proj/notes.txt'' \<mapsto> RegularFile ''hello'']"

text \<open>A project whose \<^verbatim>\<open>document\<close> is a regular file.\<close>

definition file_project :: filesystem where
  "file_project = [''proj'' \<mapsto> Directory [''document''], ''proj/document'' \<mapsto> RegularFile []]"

text \<open>An \<^verbatim>\<open>Analysis\<close> object as its constructor leaves it (the entries that matter here).\<close>

definition demo_analysis :: analysis where
  "demo_analysis =
     \<lparr>attrs = [''_thresh'' \<mapsto> PNum (1 / 100000), ''_group_name'' \<mapsto> PStr ''treatment''],
      tmp_dict =
        [''group'' \<mapsto> [''thresh'' \<mapsto> PNum (1 / 100000), ''group_name'' \<mapsto> PStr ''treatment''],
         ''corr'' \<mapsto> Map.empty, ''reg'' \<mapsto> Map.empty]\<rparr>"

text \<open>
  Two tables of six samples. In \<open>abc_table\<close> the column \<open>a\<close> is orthogonal to \<open>b\<close>,
  \<open>c\<close> and the constant, while \<open>b\<close> and \<open>c\<close> are nearly collinear. In \<open>xyz_table\<close> the
  columns \<open>x\<close> and \<open>y\<close> are orthogonal and \<open>z\<close> is their sum plus an orthogonal part;
  \<open>cxyz_table\<close> is the same table with a first column that carries the label
  \<^verbatim>\<open>add_const\<close>.
\<close>

definition samples :: "string list" where
  "samples = [''s1'', ''s2'', ''s3'', ''s4'', ''s5'', ''s6'']"

definition col_a :: "string \<times> fval list" where
  "col_a = (''a'', [Fin 1, Fin (- 1), Fin (- 1), Fin 1, Fin 0, Fin 0])"

definition col_b :: "string \<times> fval list" where
  "col_b = (''b'', [Fin 1, Fin 2, Fin 3, Fin 4, Fin 5, Fin 6])"

definition col_c :: "string \<times> fval list" where
  "col_c = (''c'', [Fin 1, Fin 2, Fin 3, Fin 4, Fin 5, Fin 7])"

definition col_x :: "string \<times> fval list" where
  "col_x = (''x'', [Fin 1, Fin (- 1), Fin 0, Fin 0, Fin 0, Fin 0])"

definition col_y :: "string \<times> fval list" where
  "col_y = (''y'', [Fin 0, Fin 0, Fin 1, Fin (- 1), Fin 0, Fin 0])"

definition col_z :: "string \<times> fval list" where
  "col_z = (''z'', [Fin 1, Fin (- 1), Fin 1, Fin (- 1), Fin 1, Fin (- 1)])"

definition abc_table :: frame where
  "abc_table = \<lparr>index = samples, columns = [col_a, col_b, col_c]\<rparr>"

definition xyz_table :: frame where
  "xyz_table = \<lparr>index = samples, columns = [col_x, col_y, col_z]\<rparr>"

definition yz_table :: frame where
  "yz_table = \<lparr>index = samples, columns = [col_y, col_z]\<rparr>"

definition cxyz_table :: frame where
  "cxyz_table =
     \<lparr>index = samples,
      columns = [(''add_const'', [Fin 2, Fin 2, Fin 2, Fin 2, Fin 2, Fin 2]), col_x, col_y, col_z]\<rparr>"

text \<open>
  The variance inflation factors of these tables, as the statsmodels function computes
  them (\<open>1 / (1 - R\<^sup>2)\<close> of the regression of the column on the others), tabulated by
  the labels of the table it is given. Only the positions that \<^verbatim>\<open>calculate_vif\<close>
  reads are listed.
\<close>

definition vif_demo :: "frame \<Rightarrow> nat \<Rightarrow> fval" where
  "vif_demo df i =
     (if labels df = [''a'', ''b'', ''c'', ''add_const''] then [Fin 1, Fin 49, Fin 49, Fin 1] ! i
      else if labels df = [''b'', ''c'', ''add_const''] then [Fin 49, Fin 49, Fin 1] ! i
      else if labels df = [''add_const'', ''x'', ''y'', ''z''] then [Fin 1, Fin 2, Fin 2, Fin 3] ! i
      else if labels df = [''x'', ''y'', ''z'', ''add_const''] then [Fin 2, Fin 2, Fin 3, Fin 1] ! i
      else if labels df = [''y'', ''z'', ''add_const''] then [Fin (3 / 2), Fin (3 / 2), Fin 1] ! i
      else Fin 1)"









text \<open>
  One protein against one transcript over three samples, perfectly correlated: the
  values that the statistic routines return for it (three pairs, one degree of freedom,
  coefficient 1, p-value 0, every pair present).
\<close>

definition demo_corr_lib :: corr_lib where
  "demo_corr_lib =
     \<lparr>core_corr = (\<lambda>m1 m2 alg. (Vec [Fin 3], Vec [Fin 1], Vec [Fin 1])),
      core_corr_tensor = (\<lambda>m1 m2 alg. (Mat [[Fin 1]], Mat [[Fin 1]])),
      spearman_pvalue = (\<lambda>corr dof. Vec [Fin 0]),
      pearson_pvalue = (\<lambda>corr dof. Vec [Fin 0]),
      fdr = (\<lambda>p m. p),
      frequency = (\<lambda>count m. Vec [Fin 1])\<rparr>"

definition demo_corr_obj :: corr_obj where
  "demo_corr_obj =
     \<lparr>corr_dirpath = ''proj'', corr_name1 = ''protein'', corr_name2 = ''rna'',
      handle_element1 = [''P1''], handle_element2 = [''R1''], corr_thresh = 0,
      corr_cal_type = ''other'', corr_fdr_method = ''i'', corr_fdr_type = ''local'',
      corr_algorithm = ''all'', write_out = PStr ''csv'', corr_value = [], corr_index = None,
      corr_table = None\<rparr>"

definition doc_project :: filesystem where
  "doc_project = [''proj'' \<mapsto> Directory [''document''], ''proj/document'' \<mapsto> Directory []]"

text \<open>
  Two outcomes \<open>y1\<close> and \<open>y2\<close>; the model of \<open>y2\<close> cannot be fitted, every other
  call succeeds. Models, ANOVA tables and values are named by strings.
\<close>

definition demo_reg_lib :: "(string, string, string) reg_lib" where
  "demo_reg_lib =
     \<lparr>reg_fit = (\<lambda>i. if i = ''y2'' then None else Some (''model_'' @ i)),
      anova_lm = (\<lambda>m. Some (''anova_'' @ m)),
      model_attr = (\<lambda>m output. Some (output @ ''_'' @ m)),
      eta_of = (\<lambda>a. Some (''eta_'' @ a)),
      table_like = (\<lambda>v. True)\<rparr>"

definition demo_reg_obj :: "(string, string, string) reg_obj" where
  "demo_reg_obj =
     \<lparr>reg_y_columns = [''y1'', ''y2''], reg_anova = True, reg_output = [''params'', ''pvalues''],
      reg_model = [], reg_table = [], printed = []\<rparr>"

section \<open>Properties\<close>

subsection \<open>Parameter update\<close>

lemma store_group_other:
  "store_group fn kw obj = Inr obj' \<Longrightarrow> k \<notin> fst ` set kw \<Longrightarrow>
     attrs obj' (CHR ''_'' # k) = attrs obj (CHR ''_'' # k)
     \<and> (\<forall>c. tmp_dict obj fn = Some c \<longrightarrow> (\<exists>c'. tmp_dict obj' fn = Some c' \<and> c' k = c k))"
proof (induction kw arbitrary: obj)
  case Nil
  then show ?case by simp
next
  case (Cons a kw)
  obtain k0 v0 where a: "a = (k0, v0)" by (cases a)
  from Cons.prems a obtain v' coll where
    v': "(if k0 = ''thresh'' then thresh_lookup v0 else Inr v0) = Inr v'"
    and coll: "tmp_dict obj fn = Some coll"
    and rest: "store_group fn kw
                 (obj\<lparr>attrs := (attrs obj)(CHR ''_'' # k0 \<mapsto> v'),
                      tmp_dict := (tmp_dict obj)(fn \<mapsto> coll(k0 \<mapsto> v'))\<rparr>) = Inr obj'"
    by (auto split: sum.splits option.splits)
  from Cons.prems a have ne: "k \<noteq> k0" and notin: "k \<notin> fst ` set kw" by auto
  from Cons.IH [OF rest notin] ne coll show ?case by auto
qed

lemma store_group_stored:
  "store_group fn kw obj = Inr obj' \<Longrightarrow> distinct (map fst kw) \<Longrightarrow> (k, v) \<in> set kw \<Longrightarrow>
     (\<exists>v'. (if k = ''thresh'' then thresh_lookup v else Inr v) = Inr v'
        \<and> attrs obj' (CHR ''_'' # k) = Some v'
        \<and> (\<exists>c'. tmp_dict obj' fn = Some c' \<and> c' k = Some v'))"
proof (induction kw arbitrary: obj)
  case Nil
  then show ?case by simp
next
  case (Cons a kw)
  obtain k0 v0 where a: "a = (k0, v0)" by (cases a)
  from Cons.prems a obtain v' coll where
    v': "(if k0 = ''thresh'' then thresh_lookup v0 else Inr v0) = Inr v'"
    and coll: "tmp_dict obj fn = Some coll"
    and rest: "store_group fn kw
                 (obj\<lparr>attrs := (attrs obj)(CHR ''_'' # k0 \<mapsto> v'),
                      tmp_dict := (tmp_dict obj)(fn \<mapsto> coll(k0 \<mapsto> v'))\<rparr>) = Inr obj'"
    by (auto split: sum.splits option.splits)
  show ?case
  proof (cases "(k, v) = (k0, v0)")
    case True
    with Cons.prems a have notin: "k \<notin> fst ` set kw" by auto
    from store_group_other [OF rest notin] True v' show ?thesis by auto
  next
    case False
    with Cons.prems a have "(k, v) \<in> set kw" "distinct (map fst kw)" by auto
    from Cons.IH [OF rest this(2) this(1)] show ?thesis .
  qed
qed

text \<open>
  Claim C9. When \<^verbatim>\<open>set_param('group', ...)\<close> is given a numeric threshold \<open>x\<close> among
  its keyword arguments and gets as far as the pipeline, the value stored as the
  attribute \<^verbatim>\<open>_thresh\<close> and in the \<^verbatim>\<open>group\<close> parameter collection is \<open>1e-5\<close> when
  \<open>x\<close> is 0, \<open>1 - 1e-5\<close> when \<open>x\<close> is 1, and \<open>x\<close> itself otherwise.
\<close>

theorem set_param_thresh_remap:
  assumes "set_param obj ''group'' kw = Inr obj'"
      and "distinct (map fst kw)"
      and "(''thresh'', PNum x) \<in> set kw"
  shows "attrs obj' ''_thresh''
           = Some (PNum (if x = 0 then 1 / 100000 else if x = 1 then 1 - 1 / 100000 else x))
       \<and> (\<exists>coll. tmp_dict obj' ''group'' = Some coll
             \<and> coll ''thresh''
                 = Some (PNum (if x = 0 then 1 / 100000 else if x = 1 then 1 - 1 / 100000 else x)))"
proof -
  from assms(1) obtain obj0 where st: "store_group ''group'' kw obj0 = Inr obj'"
    by (auto simp: set_param_def Let_def split: if_splits option.splits)
  from store_group_stored [OF st assms(2) assms(3)] show ?thesis
    by (auto split: if_splits)
qed

lemma demo_set_param_returns:
  "\<exists>obj'. set_param demo_analysis ''group'' [(''thresh'', PNum x)] = Inr obj'"
  by (simp add: set_param_def demo_analysis_def lower_def lower_char_def Let_def)

theorem set_param_thresh_remap_witness:
  "(\<exists>obj'. set_param demo_analysis ''group'' [(''thresh'', PNum 0)] = Inr obj'
       \<and> attrs obj' ''_thresh'' = Some (PNum (1 / 100000)))
   \<and> (\<exists>obj'. set_param demo_analysis ''group'' [(''thresh'', PNum 1)] = Inr obj'
       \<and> attrs obj' ''_thresh'' = Some (PNum (1 - 1 / 100000)))
   \<and> (\<exists>obj'. set_param demo_analysis ''group'' [(''thresh'', PNum (1 / 2))] = Inr obj'
       \<and> attrs obj' ''_thresh'' = Some (PNum (1 / 2)))"
proof -
  have r: "\<exists>obj'. set_param demo_analysis ''group'' [(''thresh'', PNum x)] = Inr obj'
       \<and> attrs obj' ''_thresh''
           = Some (PNum (if x = 0 then 1 / 100000 else if x = 1 then 1 - 1 / 100000 else x))" for x
  proof -
    from demo_set_param_returns [of x] obtain obj' where
      o: "set_param demo_analysis ''group'' [(''thresh'', PNum x)] = Inr obj'" by blast
    have d: "distinct (map fst [(''thresh'', PNum x)])" by simp
    have m: "(''thresh'', PNum x) \<in> set [(''thresh'', PNum x)]" by simp
    from set_param_thresh_remap [OF o d m] o show ?thesis by blast
  qed
  from r [of 0] r [of 1] r [of "1 / 2"] show ?thesis by simp
qed

subsection \<open>Scaling\<close>

text \<open>
  Claim C5, as amended. \<^verbatim>\<open>scale\<close> with no method (\<^verbatim>\<open>None\<close>, and likewise the empty
  string) returns its first argument unchanged and raises nothing, whatever that
  argument is. The method table has exactly the seven names standard, zscore, minmax,
  normalizer, robust, log2 and log10; \<^verbatim>\<open>none\<close> is not one of them.
\<close>

theorem scale_no_method_identity:
  "scale np_log fit_transform tables e PNone = Inr e
   \<and> scale np_log fit_transform tables e (PStr []) = Inr e
   \<and> dom scaler_methods
       = {''standard'', ''zscore'', ''minmax'', ''normalizer'', ''robust'', ''log2'', ''log10''}"
  by (auto simp: scale_def scaler_methods_def split: if_splits)

text \<open>
  Claim C5 as stated fails: the string \<^verbatim>\<open>'none'\<close> passes the guard (a non-empty
  string is true) and is then looked up in the method table, which raises
  \<^verbatim>\<open>KeyError\<close>.
\<close>

theorem scale_none_string_counterexample:
  "scale (\<lambda>m v. v) (\<lambda>m vs. vs) Map.empty
     (EFrame \<lparr>index = [''s1''], columns = [(''x'', [Fin 1])]\<rparr>) (PStr ''none'') = Inl KeyError"
  by (simp add: scale_def scaler_methods_def)

subsection \<open>Variance-inflation pruning\<close>

lemmas demo_cols = col_a_def col_b_def col_c_def col_x_def col_y_def col_z_def samples_def

lemmas vif_eval =
  calculate_vif_def assign_add_const_def labels_def Let_def vif_loop.simps vif_scores_def
  vif_demo_def fgt_def fmax_def np_argmax_def drop_label_def
  upt_rec [of 0] upt_rec [of 1] upt_rec [of 2] upt_rec [of 3] upt_rec [of 4]

text \<open>A round of the loop that goes on removes the columns that carry the label of position 0.\<close>

lemma vif_loop_drops_position_0:
  assumes "np_max (vif_scores vif df) = Inr m" and "fgt m (Fin thresh)"
  shows "vif_loop vif thresh df =
           (case drop_label (labels df ! 0) df of
              Inl e \<Rightarrow> Inl e
            | Inr df' \<Rightarrow> vif_loop vif thresh df')"
  using assms by (simp add: vif_loop.simps [of vif thresh df] Let_def np_argmax_def)

text \<open>
  Claim C1 fails on the code (a defect of the code, not of the claim). On \<open>abc_table\<close>
  with threshold 5 the scores of the first round are 1, 49 and 49, so the first column
  of maximal score is \<open>b\<close> at position 1; the loop removes \<open>a\<close> at position 0 instead,
  then \<open>b\<close>, and returns the table of \<open>c\<close> alone. Removing \<open>b\<close> would have left
  \<open>a\<close> and \<open>c\<close>, both of score 1.
\<close>

theorem calculate_vif_drops_first_column:
  "vif_scores vif_demo (assign_add_const abc_table) = [Fin 1, Fin 49, Fin 49]
   \<and> np_argmax [Fin 1, Fin 49, Fin 49] = 1
   \<and> calculate_vif vif_demo 5 abc_table = Inr \<lparr>index = samples, columns = [col_c]\<rparr>"
  by (simp add: vif_eval abc_table_def demo_cols)

lemma assign_const_last:
  "''add_const'' \<notin> set (labels df) \<Longrightarrow> const_last (assign_add_const df)"
  by (auto simp: const_last_def assign_add_const_def labels_def Let_def)

lemma drop_const_assign:
  assumes "const_last d"
  shows "\<exists>out. drop_label ''add_const'' d = Inr out \<and> assign_add_const out = d
           \<and> ''add_const'' \<notin> set (labels out)"
proof -
  from assms obtain cs where
    cs: "columns d = cs @ [(''add_const'', replicate (length (index d)) (Fin 1))]"
    and notin: "''add_const'' \<notin> set (map fst cs)" by (auto simp: const_last_def)
  have f: "filter (\<lambda>c. fst c \<noteq> ''add_const'') cs = cs"
    using notin by (induction cs) auto
  show ?thesis
    using cs notin f by (auto simp: drop_label_def labels_def assign_add_const_def Let_def)
qed

text \<open>A table that the loop returns is one on which the loop stops at once.\<close>

lemma vif_loop_fixpoint:
  "const_last d \<Longrightarrow> vif_loop vif thresh d = Inr d' \<Longrightarrow>
     const_last d' \<and> vif_loop vif thresh d' = Inr d'"
proof (induction vif thresh d rule: vif_loop.induct)
  case (1 vif thresh df)
  from "1.prems"(2) obtain m where m: "np_max (vif_scores vif df) = Inr m"
    by (cases "np_max (vif_scores vif df)")
       (simp_all add: vif_loop.simps [of vif thresh df] Let_def)
  show ?case
  proof (cases "fgt m (Fin thresh)")
    case False
    with m "1.prems"(2) have "d' = df"
      by (simp add: vif_loop.simps [of vif thresh df] Let_def)
    with "1.prems" show ?thesis by simp
  next
    case True
    with m "1.prems"(2) obtain df' where
      dl: "drop_label (labels df ! np_argmax [m]) df = Inr df'"
      and rest: "vif_loop vif thresh df' = Inr d'"
      by (cases "drop_label (labels df ! np_argmax [m]) df")
         (simp_all add: vif_loop.simps [of vif thresh df] Let_def)
    from "1.prems"(1) obtain cs where
      cs: "columns df = cs @ [(''add_const'', replicate (length (index df)) (Fin 1))]"
      and notin: "''add_const'' \<notin> set (map fst cs)" by (auto simp: const_last_def)
    from m have "vif_scores vif df \<noteq> []" by (cases "vif_scores vif df") auto
    then have "cs \<noteq> []" using cs by (auto simp: vif_scores_def)
    then obtain c cs' where c: "cs = c # cs'" by (cases cs) auto
    have l0: "labels df ! np_argmax [m] = fst c"
      using cs c by (simp add: np_argmax_def labels_def)
    have ne: "fst c \<noteq> ''add_const''" using notin c by auto
    from dl l0 have df': "df' = df\<lparr>columns := filter (\<lambda>x. fst x \<noteq> fst c) (columns df)\<rparr>"
      by (auto simp: drop_label_def split: if_splits)
    have "const_last df'"
      unfolding const_last_def df' using cs ne notin
      by (intro exI [of _ "filter (\<lambda>x. fst x \<noteq> fst c) cs"]) auto
    from "1.IH" [OF refl m True refl dl this rest] show ?thesis .
  qed
qed

lemma cxyz_run: "calculate_vif vif_demo (5 / 2) cxyz_table = Inr xyz_table"
  by (simp add: vif_eval cxyz_table_def xyz_table_def demo_cols)

lemma xyz_run: "calculate_vif vif_demo (5 / 2) xyz_table = Inr yz_table"
  by (simp add: vif_eval xyz_table_def yz_table_def demo_cols)

text \<open>
  Claim C7, as amended. For a table with no column labelled \<^verbatim>\<open>add_const\<close>, every
  scoring function and every threshold: when \<^verbatim>\<open>calculate_vif\<close> returns a table,
  \<^verbatim>\<open>calculate_vif\<close> on that table with the same threshold returns it unchanged.
\<close>

theorem calculate_vif_idempotent:
  assumes "''add_const'' \<notin> set (labels df)"
      and "calculate_vif vif thresh df = Inr out"
  shows "calculate_vif vif thresh out = Inr out"
proof -
  from assms(2) obtain d where d: "vif_loop vif thresh (assign_add_const df) = Inr d"
    and out: "drop_label ''add_const'' d = Inr out"
    by (auto simp: calculate_vif_def split: sum.splits)
  from vif_loop_fixpoint [OF assign_const_last [OF assms(1)] d]
  have cl: "const_last d" and fx: "vif_loop vif thresh d = Inr d" by auto
  from drop_const_assign [OF cl] out have "assign_add_const out = d" by auto
  with fx out show ?thesis by (simp add: calculate_vif_def)
qed

theorem calculate_vif_idempotent_witness:
  "''add_const'' \<notin> set (labels xyz_table)
   \<and> calculate_vif vif_demo (5 / 2) xyz_table = Inr yz_table
   \<and> calculate_vif vif_demo (5 / 2) yz_table = Inr yz_table"
proof -
  have l: "''add_const'' \<notin> set (labels xyz_table)"
    by (simp add: xyz_table_def labels_def demo_cols)
  from calculate_vif_idempotent [OF l xyz_run] l xyz_run show ?thesis by simp
qed

text \<open>
  Claim C7 as stated fails on a table that has a column labelled \<^verbatim>\<open>add_const\<close>. In
  \<open>cxyz_table\<close> that column is the first one: the assignment overwrites it where it
  stands, the slice \<^verbatim>\<open>[:-1]\<close> then leaves the score of \<open>z\<close> (3) out, the other
  scores (1, 2, 2) are below the threshold 2.5, and the result is \<open>xyz_table\<close>. Run
  again on \<open>xyz_table\<close>, the constant is appended last, \<open>z\<close> is scored, and columns
  are removed.
\<close>

theorem calculate_vif_idempotent_counterexample:
  "calculate_vif vif_demo (5 / 2) cxyz_table = Inr xyz_table
   \<and> calculate_vif vif_demo (5 / 2) xyz_table = Inr yz_table
   \<and> yz_table \<noteq> xyz_table"
  using cxyz_run xyz_run by (simp add: xyz_table_def yz_table_def)

subsection \<open>Loading\<close>

text \<open>
  Claim C3, as amended. Constructing a \<^verbatim>\<open>Dataset\<close> on a project directory that has no
  \<^verbatim>\<open>document\<close> subfolder raises: \<^verbatim>\<open>os.listdir\<close> raises \<^verbatim>\<open>FileNotFoundError\<close> when
  nothing has that path, \<^verbatim>\<open>NotADirectoryError\<close> when a regular file has it. No
  object and no registry come out of it.
\<close>

theorem dataset_init_without_document_raises:
  assumes "\<not> isdir fs (path_join dir ''document'')"
  shows "dataset_init pd_read handle_colors fs dir
           = Inl (if fs (path_join dir ''document'') = None then FileNotFoundError
                  else NotADirectoryError)"
  using assms
  by (auto simp: dataset_init_def isdir_def listdir_def Let_def split: option.splits node.splits)

theorem dataset_init_without_document_raises_witness:
  "\<not> isdir file_project (path_join ''proj'' ''document'')
   \<and> dataset_init (\<lambda>r ic fs p. Inl ValueError) (\<lambda>color category. ()) file_project ''proj''
       = (Inl NotADirectoryError :: error + (unit, unit) dataset)"
proof -
  have d: "\<not> isdir file_project (path_join ''proj'' ''document'')"
    by (simp add: isdir_def file_project_def path_join_def)
  have n: "file_project (path_join ''proj'' ''document'') \<noteq> None"
    by (simp add: file_project_def path_join_def)
  from dataset_init_without_document_raises [OF d, of "\<lambda>r ic fs p. Inl ValueError" "\<lambda>color category. ()"]
    d n show ?thesis by simp
qed

text \<open>
  Claim C3 as stated fails: on a project directory with no \<^verbatim>\<open>document\<close> entry the
  constructor does not return an object with an empty registry, it raises
  \<^verbatim>\<open>FileNotFoundError\<close>.
\<close>

theorem dataset_init_accepts_counterexample:
  "\<not> isdir bare_project (path_join ''proj'' ''document'')
   \<and> dataset_init (\<lambda>r ic fs p. Inl ValueError) (\<lambda>color category. ()) bare_project ''proj''
       = (Inl FileNotFoundError :: error + (unit, unit) dataset)"
  by (simp add: dataset_init_def isdir_def listdir_def bare_project_def path_join_def)

subsection \<open>Group comparison\<close>

































subsection \<open>Correlation\<close>

lemma map_of_dict_set:
  "map_of (dict_set k v d) k' = (if k' = k then Some v else map_of d k')"
  by (induction d) auto

lemma frequence_present:
  "map_of (dict_setdefault ''frequence'' f d) ''frequence'' \<noteq> None"
  by (simp add: dict_setdefault_def map_of_dict_set)

text \<open>
  Claim C4 fails on the code (a defect of the code, not of the claim). With the FDR
  type \<^verbatim>\<open>'global'\<close>, the default algorithm \<^verbatim>\<open>'all'\<close> and a calculation type that
  does not start with \<^verbatim>\<open>co\<close>, the pipeline ends in \<^verbatim>\<open>AttributeError\<close>, raised by
  \<^verbatim>\<open>prob.faltten()\<close> in \<^verbatim>\<open>__corr_func\<close>, whatever the two element sets are: the
  check of \<^verbatim>\<open>__corr_table\<close> that raises \<^verbatim>\<open>MethodError\<close> is never reached.
\<close>

theorem global_fdr_ends_in_attribute_error:
  "corr_pipeline_tail lib fs
     (st\<lparr>corr_fdr_type := ''global'', corr_cal_type := ''other'', corr_algorithm := ''all''\<rparr>)
     matrix1_value matrix2_value
   = (fs, [], Inl AttributeError)"
  by (simp add: corr_pipeline_tail_def cal_cor_value_def corr_func_def lower_def lower_char_def
      startswith_def Let_def frequence_present split: prod.splits option.splits)

lemma corr_func_frame:
  assumes "corr_func lib alg (st, m1, m2) = Inr (st', m1', m2')"
  shows "handle_element1 st' = handle_element1 st \<and> handle_element2 st' = handle_element2 st
       \<and> write_out st' = write_out st \<and> corr_dirpath st' = corr_dirpath st
       \<and> corr_name1 st' = corr_name1 st \<and> corr_name2 st' = corr_name2 st
       \<and> corr_algorithm st' = corr_algorithm st"
  using assms
  by (auto simp: corr_func_def Let_def split: if_splits prod.splits option.splits list.splits)

lemma cal_cor_value_frame:
  assumes "cal_cor_value lib (st, m1, m2) = Inr (st', m1', m2')"
  shows "handle_element2 st' = handle_element2 st"
proof -
  let ?alg = "lower (corr_algorithm st)"
  show ?thesis
  proof (cases "contains ''spearman'' ?alg \<or> ?alg = ''all''")
    case True
    with assms obtain sa ma mb where
      s: "corr_func lib ''spearman'' (st, m1, m2) = Inr (sa, ma, mb)"
      and r: "(if contains ''pearson'' ?alg \<or> ?alg = ''all''
               then corr_func lib ''pearson'' (sa, ma, mb) else Inr (sa, ma, mb)) = Inr (st', m1', m2')"
      by (auto simp: cal_cor_value_def Let_def split: sum.splits)
    from corr_func_frame [OF s] have a: "handle_element2 sa = handle_element2 st" by simp
    from r have "handle_element2 st' = handle_element2 sa"
      by (auto split: if_splits dest: corr_func_frame)
    with a show ?thesis by simp
  next
    case False
    with assms have "(if contains ''pearson'' ?alg \<or> ?alg = ''all''
               then corr_func lib ''pearson'' (st, m1, m2) else Inr (st, m1, m2)) = Inr (st', m1', m2')"
      by (auto simp: cal_cor_value_def Let_def)
    then show ?thesis by (auto split: if_splits dest: corr_func_frame)
  qed
qed

lemma corr_make_table_frame:
  "corr_make_table st = Inr st' \<Longrightarrow>
     handle_element2 st' = handle_element2 st \<and> corr_value st' = corr_value st"
  by (auto simp: corr_make_table_def Let_def split: if_splits sum.splits)

lemma write_table_array_labels:
  "list_all (labelled_by idx)
     (fst (snd (write_table fs dir (Inr a) idx idx iname cname fname ext)))"
  by (auto simp: write_table_def labelled_by_def Let_def split: sum.splits pyval.splits)

lemma write_all_labels:
  "list_all (labelled_by (handle_element2 st)) (fst (snd (write_all st fs items)))"
proof (induction items arbitrary: fs)
  case Nil
  then show ?case by simp
next
  case (Cons item items)
  obtain name matrix where i: "item = (name, matrix)" by (cases item)
  let ?w = "write_table fs (corr_dirpath st) (Inr matrix) (handle_element2 st) (handle_element2 st)
              (corr_name1 st) (corr_name2 st)
              (corr_name1 st @ ''_'' @ corr_name2 st @ ''_'' @ name) (write_out st)"
  obtain fs' evs r where w: "?w = (fs', evs, r)" by (cases ?w)
  have e: "list_all (labelled_by (handle_element2 st)) evs"
    using write_table_array_labels [of "handle_element2 st" fs "corr_dirpath st" matrix] w
    by (metis fst_conv snd_conv)
  show ?case
  proof (cases r)
    case None
    obtain fs'' evs' r' where a: "write_all st fs' items = (fs'', evs', r')"
      by (cases "write_all st fs' items")
    from Cons.IH [of fs'] a have "list_all (labelled_by (handle_element2 st)) evs'" by simp
    with e w a None i show ?thesis by simp
  next
    case (Some err)
    with e w i show ?thesis by simp
  qed
qed

text \<open>
  Claim C10. Whatever the end of the correlation pipeline writes, every matrix written
  has the labels of the second element set (\<^verbatim>\<open>_handle_element2\<close>) as its row index
  and as its column index.
\<close>

theorem written_matrices_labelled_by_element2:
  "list_all (labelled_by (handle_element2 st))
     (fst (snd (corr_pipeline_tail lib fs st matrix1_value matrix2_value)))"
proof (cases "cal_cor_value lib (st\<lparr>corr_value := []\<rparr>, matrix1_value, matrix2_value)")
  case (Inl e)
  then show ?thesis by (simp add: corr_pipeline_tail_def)
next
  case (Inr res)
  obtain st1 m1 m2 where res: "res = (st1, m1, m2)" by (cases res)
  from cal_cor_value_frame [OF Inr [unfolded res]]
  have h1: "handle_element2 st1 = handle_element2 st" by simp
  show ?thesis
  proof (cases "corr_make_table st1")
    case (Inl e)
    with Inr res show ?thesis by (simp add: corr_pipeline_tail_def)
  next
    case (Inr st2)
    from corr_make_table_frame [OF Inr] h1
    have h2: "handle_element2 st2 = handle_element2 st" by simp
    obtain fs' evs r where w: "write_all st2 fs (corr_value st2) = (fs', evs, r)"
      by (cases "write_all st2 fs (corr_value st2)")
    from write_all_labels [of st2 fs "corr_value st2"] w h2
    have "list_all (labelled_by (handle_element2 st)) evs" by simp
    with \<open>cal_cor_value lib (st\<lparr>corr_value := []\<rparr>, matrix1_value, matrix2_value) = Inr res\<close>
      res Inr w show ?thesis
      by (cases r) (simp_all add: corr_pipeline_tail_def)
  qed
qed

lemma demo_corr_writes:
  "map (\<lambda>e. case e of Mkdir p \<Rightarrow> (p, [], []) | Written w \<Rightarrow> (w_path w, w_index w, w_columns w))
     (fst (snd (corr_pipeline_tail demo_corr_lib doc_project demo_corr_obj
                  [[Fin 1, Fin 2, Fin 3]] [[Fin 2, Fin 4, Fin 6]])))
   = [(''proj/document/protein_rna_count.csv'', [''R1''], [''R1'']),
      (''proj/document/protein_rna_frequence.csv'', [''R1''], [''R1'']),
      (''proj/document/protein_rna_spearman_rho.csv'', [''R1''], [''R1'']),
      (''proj/document/protein_rna_spearman_pvalues.csv'', [''R1''], [''R1'']),
      (''proj/document/protein_rna_spearman_fdr.csv'', [''R1''], [''R1'']),
      (''proj/document/protein_rna_pearson_corr.csv'', [''R1''], [''R1'']),
      (''proj/document/protein_rna_pearson_pvalues.csv'', [''R1''], [''R1'']),
      (''proj/document/protein_rna_pearson_fdr.csv'', [''R1''], [''R1''])]"
  by (simp add: corr_pipeline_tail_def cal_cor_value_def corr_func_def lower_def lower_char_def
      startswith_def Let_def dict_setdefault_def corr_make_table_def stacked_frame_def rows_of_def
      write_table_def labelled_def path_join_def isdir_def endswith_def np_gt_def fgt_def
      demo_corr_lib_def demo_corr_obj_def doc_project_def)

theorem written_matrices_labelled_by_element2_witness:
  "list_all (labelled_by (handle_element2 demo_corr_obj))
     (fst (snd (corr_pipeline_tail demo_corr_lib doc_project demo_corr_obj
                  [[Fin 1, Fin 2, Fin 3]] [[Fin 2, Fin 4, Fin 6]])))
   \<and> length (fst (snd (corr_pipeline_tail demo_corr_lib doc_project demo_corr_obj
                  [[Fin 1, Fin 2, Fin 3]] [[Fin 2, Fin 4, Fin 6]]))) = 8
   \<and> handle_element1 demo_corr_obj = [''P1''] \<and> handle_element2 demo_corr_obj = [''R1'']"
proof -
  have "length (map (\<lambda>e. case e of Mkdir p \<Rightarrow> (p, [], []) | Written w \<Rightarrow> (w_path w, w_index w, w_columns w))
     (fst (snd (corr_pipeline_tail demo_corr_lib doc_project demo_corr_obj
                  [[Fin 1, Fin 2, Fin 3]] [[Fin 2, Fin 4, Fin 6]])))) = 8"
    unfolding demo_corr_writes by simp
  then have l: "length (fst (snd (corr_pipeline_tail demo_corr_lib doc_project demo_corr_obj
                  [[Fin 1, Fin 2, Fin 3]] [[Fin 2, Fin 4, Fin 6]]))) = 8"
    by simp
  have h: "handle_element1 demo_corr_obj = [''P1''] \<and> handle_element2 demo_corr_obj = [''R1'']"
    by (simp add: demo_corr_obj_def)
  from written_matrices_labelled_by_element2
         [of demo_corr_obj demo_corr_lib doc_project "[[Fin 1, Fin 2, Fin 3]]" "[[Fin 2, Fin 4, Fin 6]]"]
       l h
  show ?thesis by (intro conjI) simp_all
qed

subsection \<open>Regression\<close>

lemmas reg_eval =
  reg_pipeline_tail_def fit_outcome_def entry_of_def Let_def demo_reg_lib_def demo_reg_obj_def

text \<open>
  Claim C8 fails on the code (a defect of the code, not of the claim). With the ANOVA
  step on, the failed fit of \<open>y2\<close> is caught and printed, but the ANOVA step then
  stores the table of the model of \<open>y1\<close> under \<open>y2\<close>; the entry of \<open>y2\<close> has no
  \<^verbatim>\<open>'model'\<close>, and \<^verbatim>\<open>__reg_table\<close> ends the run with \<^verbatim>\<open>KeyError\<close>. With the
  ANOVA step off the same run returns the table with the values of \<open>y1\<close>.
\<close>

theorem failed_fit_with_anova_aborts:
  "reg_pipeline_tail demo_reg_lib demo_reg_obj = ([''y2''], Inl KeyError)
   \<and> reg_model (fst (fit_outcomes demo_reg_lib [''y1'', ''y2''] (demo_reg_obj, None)))
       = [(''y1'', \<lparr>entry_model = Some ''model_y1'', entry_anova = Some ''anova_model_y1''\<rparr>),
          (''y2'', \<lparr>entry_model = None, entry_anova = Some ''anova_model_y1''\<rparr>)]
   \<and> reg_pipeline_tail demo_reg_lib (demo_reg_obj\<lparr>reg_anova := False\<rparr>)
       = ([''y2''],
          Inr (demo_reg_obj\<lparr>reg_anova := False,
                 reg_model := [(''y1'', \<lparr>entry_model = Some ''model_y1'', entry_anova = None\<rparr>)],
                 reg_table :=
                   [\<lparr>block_suffix = ''coef'', block_single = False,
                     block_values = [(''y1'', ''params_model_y1'')]\<rparr>,
                    \<lparr>block_suffix = ''pvalues'', block_single = False,
                     block_values = [(''y1'', ''pvalues_model_y1'')]\<rparr>],
                 printed := [''y2'']\<rparr>))"
  by (simp add: reg_eval)

end
